theory Spec2Isabelle
  imports Complex_Main
begin

section \<open>Numbers\<close>

text \<open>
  The classifier computes with JavaScript numbers, the binary64 numbers of IEEE 754. A
  finite number is modelled by its value, a rational; the two infinities and NaN are
  values of their own. An arithmetic operation on finite numbers computes the exact
  result and rounds it to the nearest binary64 number, a tie going to the even
  significand, and to an infinity on overflow (\<open>round64\<close>). The two zeros are identified,
  which no operation of the source can observe (it divides by the literals 2, 4 and 1.5
  only).
\<close>

datatype number = Fin rat | PInf | NInf | NaN

text \<open>The power \<open>2 ^ e\<close> for an integer exponent.\<close>

definition pow2 :: "int \<Rightarrow> rat" where
  "pow2 e = (if 0 \<le> e then 2 ^ nat e else 1 / 2 ^ nat (- e))"

text \<open>\<open>\<lfloor>log\<^sub>2 n\<rfloor>\<close> for \<open>n \<ge> 1\<close>, and \<open>\<lceil>log\<^sub>2 n\<rceil>\<close>.\<close>

fun floor_log2 :: "nat \<Rightarrow> nat" where
  "floor_log2 n = (if n < 2 then 0 else Suc (floor_log2 (n div 2)))"

declare floor_log2.simps [simp del]

definition ceil_log2 :: "nat \<Rightarrow> nat" where
  "ceil_log2 n = (if n \<le> 1 then 0 else Suc (floor_log2 (n - 1)))"

text \<open>The binary exponent \<open>\<lfloor>log\<^sub>2 a\<rfloor>\<close> of a positive rational.\<close>

definition exponent_of :: "rat \<Rightarrow> int" where
  "exponent_of a =
     (if 1 \<le> a then int (floor_log2 (nat \<lfloor>a\<rfloor>)) else - int (ceil_log2 (nat \<lceil>1 / a\<rceil>)))"

text \<open>The nearest integer, a tie going to the even one.\<close>

definition round_half_even :: "rat \<Rightarrow> int" where
  "round_half_even x =
     (let f = \<lfloor>x\<rfloor>; d = x - of_int f
      in if d < 1 / 2 then f else if 1 / 2 < d then f + 1 else if even f then f else f + 1)"

text \<open>
  Rounding to binary64: the significand has 53 bits, the least exponent of a normal
  number is \<open>-1022\<close> (below it the spacing stays \<open>2 ^ -1074\<close>), and a result that rounds to
  \<open>2 ^ 1024\<close> or more is an infinity.
\<close>

definition round64 :: "rat \<Rightarrow> number" where
  "round64 q =
     (if q = 0 then Fin 0
      else let a = \<bar>q\<bar>;
               e = max (exponent_of a) (- 1022);
               u = pow2 (e - 52);
               r = of_int (round_half_even (a / u)) * u
           in if pow2 1024 \<le> r then (if q < 0 then NInf else PInf)
              else Fin (if q < 0 then - r else r))"

text \<open>The number a decimal literal of the source denotes.\<close>

definition double :: "rat \<Rightarrow> number" where
  "double q = round64 q"

fun js_neg :: "number \<Rightarrow> number" where
  "js_neg (Fin a) = Fin (- a)"
| "js_neg PInf = NInf"
| "js_neg NInf = PInf"
| "js_neg NaN = NaN"

fun js_add :: "number \<Rightarrow> number \<Rightarrow> number" where
  "js_add NaN y = NaN"
| "js_add (Fin a) NaN = NaN"
| "js_add PInf NaN = NaN"
| "js_add NInf NaN = NaN"
| "js_add (Fin a) (Fin b) = round64 (a + b)"
| "js_add (Fin a) PInf = PInf"
| "js_add (Fin a) NInf = NInf"
| "js_add PInf (Fin b) = PInf"
| "js_add PInf PInf = PInf"
| "js_add PInf NInf = NaN"
| "js_add NInf (Fin b) = NInf"
| "js_add NInf NInf = NInf"
| "js_add NInf PInf = NaN"

definition js_sub :: "number \<Rightarrow> number \<Rightarrow> number" where
  "js_sub x y = js_add x (js_neg y)"

text \<open>The sign of a number other than NaN, as \<open>-1\<close>, \<open>0\<close> or \<open>1\<close>.\<close>

fun js_sign :: "number \<Rightarrow> int" where
  "js_sign (Fin a) = (if a < 0 then - 1 else if a = 0 then 0 else 1)"
| "js_sign PInf = 1"
| "js_sign NInf = - 1"
| "js_sign NaN = 0"

definition signed_inf :: "int \<Rightarrow> number" where
  "signed_inf s = (if s = 0 then NaN else if 0 < s then PInf else NInf)"

fun js_mul :: "number \<Rightarrow> number \<Rightarrow> number" where
  "js_mul NaN y = NaN"
| "js_mul (Fin a) NaN = NaN"
| "js_mul PInf NaN = NaN"
| "js_mul NInf NaN = NaN"
| "js_mul (Fin a) (Fin b) = round64 (a * b)"
| "js_mul x y = signed_inf (js_sign x * js_sign y)"

text \<open>
  Division. A zero divisor is read as \<open>+0\<close>; the source never divides by zero.
\<close>

fun js_div :: "number \<Rightarrow> number \<Rightarrow> number" where
  "js_div NaN y = NaN"
| "js_div (Fin a) NaN = NaN"
| "js_div PInf NaN = NaN"
| "js_div NInf NaN = NaN"
| "js_div (Fin a) (Fin b) = (if b = 0 then signed_inf (js_sign (Fin a)) else round64 (a / b))"
| "js_div (Fin a) PInf = Fin 0"
| "js_div (Fin a) NInf = Fin 0"
| "js_div PInf (Fin b) = (if b < 0 then NInf else PInf)"
| "js_div NInf (Fin b) = (if b < 0 then PInf else NInf)"
| "js_div PInf PInf = NaN"
| "js_div PInf NInf = NaN"
| "js_div NInf PInf = NaN"
| "js_div NInf NInf = NaN"

text \<open>The comparison \<open>x < y\<close> of JavaScript; \<open>x > y\<close> is \<open>y < x\<close>.\<close>

fun js_lt :: "number \<Rightarrow> number \<Rightarrow> bool" where
  "js_lt NaN y = False"
| "js_lt (Fin a) NaN = False"
| "js_lt PInf NaN = False"
| "js_lt NInf NaN = False"
| "js_lt (Fin a) (Fin b) = (a < b)"
| "js_lt (Fin a) PInf = True"
| "js_lt (Fin a) NInf = False"
| "js_lt PInf y = False"
| "js_lt NInf (Fin b) = True"
| "js_lt NInf PInf = True"
| "js_lt NInf NInf = False"

definition js_gt :: "number \<Rightarrow> number \<Rightarrow> bool" where
  "js_gt x y = js_lt y x"

text \<open>\<open>Math.min\<close> of two arguments: NaN when either is NaN.\<close>

definition Math_min :: "number \<Rightarrow> number \<Rightarrow> number" where
  "Math_min x y = (if x = NaN \<or> y = NaN then NaN else if js_lt y x then y else x)"

text \<open>
  \<open>Math.round\<close>: the nearest integer, a half rounding up. The result is computed from the
  exact value of the argument and is a binary64 number itself.
\<close>

fun Math_round :: "number \<Rightarrow> number" where
  "Math_round (Fin a) = Fin (of_int \<lfloor>a + 1 / 2\<rfloor>)"
| "Math_round x = x"

section \<open>The blend shape classifier\<close>

datatype Emotion = Happy | Sad | Surprised | Angry | Neutral | Excited

record EmotionResult =
  emotion :: Emotion
  confidence :: number

record category =
  categoryName :: string
  score :: number

text \<open>
  The lookup dictionary \<open>s\<close> of \<open>classifyEmotion\<close>: the loop assigns \<open>s[b.categoryName] = b.score\<close>
  for every entry in order, so a later entry of the same name overwrites an earlier one.
\<close>

definition lookup_dict :: "category list \<Rightarrow> (string \<rightharpoonup> number)" where
  "lookup_dict blendShapes = fold (\<lambda>b s. s(categoryName b \<mapsto> score b)) blendShapes Map.empty"

text \<open>\<open>get(name) = s[name] ?? 0\<close>: a missing channel reads as 0.\<close>

definition get :: "(string \<rightharpoonup> number) \<Rightarrow> string \<Rightarrow> number" where
  "get s name = (case s name of None \<Rightarrow> Fin 0 | Some v \<Rightarrow> v)"

text \<open>The mean of a left/right pair of channels, \<open>(get(l) + get(r)) / 2\<close>.\<close>

definition pair_mean :: "(string \<rightharpoonup> number) \<Rightarrow> string \<Rightarrow> string \<Rightarrow> number" where
  "pair_mean s l r = js_div (js_add (get s l) (get s r)) (Fin 2)"

record aggregates =
  smile :: number
  frown :: number
  dimple :: number
  pucker :: number
  jawOpen :: number
  browUp :: number
  browInner :: number
  browDown :: number
  eyeWide :: number
  cheekSquint :: number
  sneer :: number
  mouthShrug :: number
  eyeSquint :: number
  eyeLookDown :: number

definition aggregates_of :: "(string \<rightharpoonup> number) \<Rightarrow> aggregates" where
  "aggregates_of s =
     \<lparr> smile = pair_mean s ''mouthSmileLeft'' ''mouthSmileRight'',
       frown = pair_mean s ''mouthFrownLeft'' ''mouthFrownRight'',
       dimple = pair_mean s ''mouthDimpleLeft'' ''mouthDimpleRight'',
       pucker = get s ''mouthPucker'',
       jawOpen = get s ''jawOpen'',
       browUp = pair_mean s ''browOuterUpLeft'' ''browOuterUpRight'',
       browInner = get s ''browInnerUp'',
       browDown = pair_mean s ''browDownLeft'' ''browDownRight'',
       eyeWide = pair_mean s ''eyeWideLeft'' ''eyeWideRight'',
       cheekSquint = pair_mean s ''cheekSquintLeft'' ''cheekSquintRight'',
       sneer = pair_mean s ''noseSneerLeft'' ''noseSneerRight'',
       mouthShrug = pair_mean s ''mouthShrugUpper'' ''mouthShrugLower'',
       eyeSquint = pair_mean s ''eyeSquintLeft'' ''eyeSquintRight'',
       eyeLookDown = pair_mean s ''eyeLookDownLeft'' ''eyeLookDownRight'' \<rparr>"

text \<open>
  The object \<open>scores\<close>, as the list of its entries in insertion order, which is the order
  \<open>Object.keys\<close> and \<open>Object.entries\<close> enumerate it in. Sums associate to the left, as the
  source's expressions do, and every decimal literal is the binary64 number it denotes.
\<close>

definition raw_scores :: "aggregates \<Rightarrow> (Emotion \<times> number) list" where
  "raw_scores a =
     [ (Happy, js_add (js_mul (smile a) (double 1.5)) (js_mul (cheekSquint a) (double 0.5))),
       (Excited,
          js_add (js_add (js_add (js_mul (smile a) (double 1.0)) (js_mul (eyeWide a) (double 0.8)))
            (js_mul (browUp a) (double 0.6))) (js_mul (jawOpen a) (double 0.4))),
       (Surprised,
          js_add (js_add (js_add (js_mul (jawOpen a) (double 1.4)) (js_mul (eyeWide a) (double 1.0)))
            (js_mul (browUp a) (double 0.6))) (js_mul (browInner a) (double 0.4))),
       (Sad,
          js_add (js_add (js_add (js_mul (frown a) (double 1.4)) (js_mul (browInner a) (double 0.7)))
            (js_mul (js_sub (double 1.0) (dimple a)) (double 0.2)))
            (js_mul (js_sub (double 1.0) (pucker a)) (double 0.2))),
       (Angry,
          js_sub (js_add (js_add (js_add (js_add (js_mul (eyeSquint a) (double 1.2))
            (js_mul (mouthShrug a) (double 1.0))) (js_mul (eyeLookDown a) (double 0.7)))
            (js_mul (browDown a) (double 0.5))) (js_mul (sneer a) (double 0.5)))
            (js_mul (smile a) (double 0.5))),
       (Neutral,
          js_sub (double 1.1)
            (js_div (js_add (js_add (js_add (js_add (js_add (js_add (js_add (smile a) (frown a))
               (jawOpen a)) (browUp a)) (browDown a)) (eyeWide a)) (eyeSquint a)) (mouthShrug a))
               (Fin 4))) ]"

text \<open>The clamp loop: a score below 0 is replaced by 0, every other one is kept.\<close>

definition clamp :: "number \<Rightarrow> number" where
  "clamp v = (if js_lt v (Fin 0) then Fin 0 else v)"

definition clamp_scores :: "(Emotion \<times> number) list \<Rightarrow> (Emotion \<times> number) list" where
  "clamp_scores scores = map (\<lambda>(key, v). (key, clamp v)) scores"

text \<open>
  The winner loop over \<open>Object.entries(scores)\<close>, started at \<open>best = "neutral"\<close>,
  \<open>bestScore = -1\<close>: an entry replaces the current best when its score is greater.
\<close>

definition winner_step :: "Emotion \<times> number \<Rightarrow> Emotion \<times> number \<Rightarrow> Emotion \<times> number" where
  "winner_step entry cur = (if js_gt (snd entry) (snd cur) then entry else cur)"

definition find_winner :: "(Emotion \<times> number) list \<Rightarrow> Emotion \<times> number" where
  "find_winner scores = fold winner_step scores (Neutral, Fin (- 1))"

definition final_scores :: "category list \<Rightarrow> (Emotion \<times> number) list" where
  "final_scores blendShapes = clamp_scores (raw_scores (aggregates_of (lookup_dict blendShapes)))"

definition classifyEmotion :: "category list \<Rightarrow> EmotionResult" where
  "classifyEmotion blendShapes =
     (let (best, bestScore) = find_winner (final_scores blendShapes);
          confidence = Math_min (js_div bestScore (double 1.5)) (Fin 1)
      in \<lparr> emotion = best, confidence = confidence \<rparr>)"

section \<open>Temporal smoothing\<close>

definition HISTORY_SIZE :: nat where
  "HISTORY_SIZE = 8"

text \<open>
  The module state the smoother works on: \<open>currentEmotion\<close> and \<open>emotionHistory\<close>, and of the
  page the two elements that show the result: the label in \<open>emotion-name\<close> (\<open>None\<close> is the
  dash) and the number \<open>pct\<close> written as \<open>pct + "%"\<close> to \<open>confidence-val\<close> and to the width of
  \<open>confidence-bar\<close>. The status line, the image and the pills are written from the same
  label and are left out.
\<close>

record app_state =
  currentEmotion :: "Emotion option"
  emotionHistory :: "Emotion list"
  shownEmotion :: "Emotion option"
  shownPct :: number

text \<open>
  At load \<open>currentEmotion\<close> is \<open>null\<close> and the history is empty; what the page shows then is
  given by its markup, taken as parameters.
\<close>

definition initial_state :: "Emotion option \<Rightarrow> number \<Rightarrow> app_state" where
  "initial_state label pct =
     \<lparr> currentEmotion = None, emotionHistory = [], shownEmotion = label, shownPct = pct \<rparr>"

text \<open>\<open>push\<close>, then one \<open>shift\<close> when the length exceeds \<open>HISTORY_SIZE\<close>.\<close>

definition pushHistory :: "Emotion \<Rightarrow> Emotion list \<Rightarrow> Emotion list" where
  "pushHistory e h = (let h1 = h @ [e] in if length h1 > HISTORY_SIZE then tl h1 else h1)"

text \<open>
  The object \<open>freq\<close> as the list of its entries in insertion order:
  \<open>freq[e] = (freq[e] ?? 0) + 1\<close> updates the entry of \<open>e\<close> in place, or adds it at the end.
\<close>

fun freq_incr :: "Emotion \<Rightarrow> (Emotion \<times> nat) list \<Rightarrow> (Emotion \<times> nat) list" where
  "freq_incr e [] = [(e, 1)]"
| "freq_incr e ((k, n) # rest) =
     (if k = e then (k, n + 1) # rest else (k, n) # freq_incr e rest)"

definition count_frequency :: "Emotion list \<Rightarrow> (Emotion \<times> nat) list" where
  "count_frequency h = fold freq_incr h []"

definition dominant_step :: "Emotion \<times> nat \<Rightarrow> Emotion \<times> nat \<Rightarrow> Emotion \<times> nat" where
  "dominant_step entry cur = (if snd entry > snd cur then entry else cur)"

text \<open>
  The loop over \<open>Object.entries(freq)\<close>, started at \<open>dominant = emotion\<close>, \<open>max = 0\<close>.
\<close>

definition dominantEmotion :: "Emotion \<Rightarrow> Emotion list \<Rightarrow> Emotion" where
  "dominantEmotion emotion' h = fst (fold dominant_step (count_frequency h) (emotion', 0))"

definition updateUI :: "Emotion \<Rightarrow> number \<Rightarrow> app_state \<Rightarrow> app_state" where
  "updateUI emotion' confidence' st =
     (if Some emotion' = currentEmotion st then st
      else st\<lparr> currentEmotion := Some emotion',
               shownEmotion := Some emotion',
               shownPct := Math_round (js_mul confidence' (Fin 100)) \<rparr>)"

definition updateEmotionSmoothed :: "Emotion \<Rightarrow> number \<Rightarrow> app_state \<Rightarrow> app_state" where
  "updateEmotionSmoothed emotion' confidence' st =
     (let h = pushHistory emotion' (emotionHistory st);
          dominant = dominantEmotion emotion' h
      in updateUI dominant confidence' (st\<lparr> emotionHistory := h \<rparr>))"

definition clearEmotion :: "app_state \<Rightarrow> app_state" where
  "clearEmotion st = st\<lparr> currentEmotion := None, shownEmotion := None, shownPct := Fin 0 \<rparr>"

text \<open>
  One processed video frame of \<open>predict\<close>: no face, a face without blend shapes, or a face
  with its blend shape categories.
\<close>

datatype frame = NoFace | FaceOnly | FaceShapes "category list"

fun predict :: "frame \<Rightarrow> app_state \<Rightarrow> app_state" where
  "predict NoFace st = clearEmotion st"
| "predict FaceOnly st = st"
| "predict (FaceShapes cats) st =
     (let r = classifyEmotion cats in updateEmotionSmoothed (emotion r) (confidence r) st)"

text \<open>
  The calls the smoother can receive, and the states they reach from the state at load.
\<close>

datatype smoother_call = Observe Emotion number | Reset

fun apply_call :: "smoother_call \<Rightarrow> app_state \<Rightarrow> app_state" where
  "apply_call (Observe e c) st = updateEmotionSmoothed e c st"
| "apply_call Reset st = clearEmotion st"

definition run_calls :: "smoother_call list \<Rightarrow> app_state \<Rightarrow> app_state" where
  "run_calls calls st = fold apply_call calls st"

section \<open>Notions used in the statements\<close>

text \<open>The entry of an emotion in a list of scores, \<open>scores[e]\<close>.\<close>

definition score_of :: "(Emotion \<times> number) list \<Rightarrow> Emotion \<Rightarrow> number" where
  "score_of scores e = (case map_of scores e of None \<Rightarrow> Fin 0 | Some v \<Rightarrow> v)"

text \<open>
  The order in which the keys of \<open>scores\<close> are enumerated, and the position of an emotion
  in it.
\<close>

definition enumeration :: "Emotion list" where
  "enumeration = [Happy, Excited, Surprised, Sad, Angry, Neutral]"

fun enum_index :: "Emotion \<Rightarrow> nat" where
  "enum_index Happy = 0"
| "enum_index Excited = 1"
| "enum_index Surprised = 2"
| "enum_index Sad = 3"
| "enum_index Angry = 4"
| "enum_index Neutral = 5"

text \<open>A number that is at least 0: a rational \<open>\<ge> 0\<close> or \<open>+\<infinity>\<close>.\<close>

fun nonneg :: "number \<Rightarrow> bool" where
  "nonneg (Fin a) = (0 \<le> a)"
| "nonneg PInf = True"
| "nonneg NInf = False"
| "nonneg NaN = False"

text \<open>A channel score as the face tracker is documented to deliver it: finite, in \<open>[0, 1]\<close>.\<close>

fun well_formed_score :: "number \<Rightarrow> bool" where
  "well_formed_score (Fin a) = (0 \<le> a \<and> a \<le> 1)"
| "well_formed_score x = False"

text \<open>The snapshot with the channels of a malformed score removed.\<close>

definition without_malformed :: "category list \<Rightarrow> category list" where
  "without_malformed blendShapes = filter (\<lambda>b. well_formed_score (score b)) blendShapes"

text \<open>The snapshot with the channels removed that the lookup dictionary binds to 0.\<close>

definition without_zero_channels :: "category list \<Rightarrow> category list" where
  "without_zero_channels blendShapes =
     filter (\<lambda>b. get (lookup_dict blendShapes) (categoryName b) \<noteq> Fin 0) blendShapes"

definition zero_aggregates :: aggregates where
  "zero_aggregates =
     \<lparr> smile = Fin 0, frown = Fin 0, dimple = Fin 0, pucker = Fin 0, jawOpen = Fin 0,
       browUp = Fin 0, browInner = Fin 0, browDown = Fin 0, eyeWide = Fin 0,
       cheekSquint = Fin 0, sneer = Fin 0, mouthShrug = Fin 0, eyeSquint = Fin 0,
       eyeLookDown = Fin 0 \<rparr>"

abbreviation channel :: "string \<Rightarrow> number \<Rightarrow> category" where
  "channel n v \<equiv> \<lparr> categoryName = n, score = v \<rparr>"

text \<open>The snapshot of the surprised scenario.\<close>

definition surprised_snapshot :: "category list" where
  "surprised_snapshot =
     [channel ''jawOpen'' (double 0.8), channel ''eyeWideLeft'' (double 0.7),
      channel ''eyeWideRight'' (double 0.7), channel ''browOuterUpLeft'' (double 0.5),
      channel ''browOuterUpRight'' (double 0.5), channel ''browInnerUp'' (double 0.3)]"

text \<open>
  Snapshots used as examples: three channels that are NaN, which make every score NaN;
  one channel that is NaN; two smile channels out of range; a tie of happy and excited.
\<close>

definition nan_snapshot :: "category list" where
  "nan_snapshot =
     [channel ''mouthSmileLeft'' NaN, channel ''jawOpen'' NaN, channel ''mouthPucker'' NaN]"

definition partial_nan_snapshot :: "category list" where
  "partial_nan_snapshot = [channel ''mouthSmileLeft'' NaN]"

definition out_of_range_snapshot :: "category list" where
  "out_of_range_snapshot =
     [channel ''mouthSmileLeft'' (Fin 2), channel ''mouthSmileRight'' (Fin 2)]"

definition tie_snapshot :: "category list" where
  "tie_snapshot =
     [channel ''mouthSmileLeft'' (double 0.8), channel ''mouthSmileRight'' (double 0.8),
      channel ''eyeWideLeft'' (double 0.5), channel ''eyeWideRight'' (double 0.5)]"

text \<open>
  States used as examples, reached by calls from a page that shows the dash and \<open>0%\<close> at
  load. Every observation of \<open>observe_all\<close> carries the confidence 0.5.
\<close>

definition observe_all :: "Emotion list \<Rightarrow> smoother_call list" where
  "observe_all es = map (\<lambda>e. Observe e (Fin 0.5)) es"

definition after_calls :: "smoother_call list \<Rightarrow> app_state" where
  "after_calls calls = run_calls calls (initial_state None (Fin 0))"

text \<open>The position of the first occurrence of \<open>x\<close> in \<open>h\<close> (the length of \<open>h\<close> when there is none).\<close>

definition first_index :: "'a list \<Rightarrow> 'a \<Rightarrow> nat" where
  "first_index h x = length (takeWhile (\<lambda>y. y \<noteq> x) h)"

section \<open>Rounding\<close>

lemma floor_rat_numeral: "\<lfloor>numeral a / numeral b :: rat\<rfloor> = numeral a div numeral b"
  by (metis floor_divide_of_int_eq of_int_numeral)

lemma ceiling_rat_numeral: "\<lceil>numeral a / numeral b :: rat\<rceil> = - (- numeral a div numeral b)"
proof -
  have "\<lceil>of_int (numeral a) / of_int (numeral b) :: rat\<rceil> = - (- numeral a div numeral b)"
    by (metis ceiling_def floor_divide_of_int_eq minus_divide_left of_int_minus)
  then show ?thesis by simp
qed

lemma floor_log2_small: "n < 2 \<Longrightarrow> floor_log2 n = 0"
  by (simp add: floor_log2.simps)

lemma floor_log2_step: "2 \<le> n \<Longrightarrow> floor_log2 n = Suc (floor_log2 (n div 2))"
  by (subst floor_log2.simps) simp

text \<open>The rules that evaluate \<open>round64\<close> on a numeral.\<close>

lemmas round64_eval = round64_def exponent_of_def floor_log2_small floor_log2_step ceil_log2_def
  pow2_def round_half_even_def Let_def floor_rat_numeral ceiling_rat_numeral

lemma round64_zero: "round64 0 = Fin 0"
  by (simp add: round64_def)

lemma pow2_positive: "0 < pow2 e"
  by (simp add: pow2_def)

lemma round_half_even_nonneg: "0 \<le> x \<Longrightarrow> 0 \<le> round_half_even x"
  by (auto simp: round_half_even_def Let_def)

text \<open>A result that is not negative rounds to a number that is not negative.\<close>

lemma round64_nonneg:
  assumes "0 \<le> q"
  shows "nonneg (round64 q)"
proof (cases "q = 0")
  case True
  then show ?thesis by (simp add: round64_zero)
next
  case False
  define u where "u = pow2 (max (exponent_of \<bar>q\<bar>) (- 1022) - 52)"
  have "0 \<le> \<bar>q\<bar> / u" using pow2_positive[of "max (exponent_of \<bar>q\<bar>) (- 1022) - 52"]
    unfolding u_def by simp
  then have "0 \<le> round_half_even (\<bar>q\<bar> / u)" by (rule round_half_even_nonneg)
  then have "0 \<le> of_int (round_half_even (\<bar>q\<bar> / u)) * u"
    using pow2_positive[of "max (exponent_of \<bar>q\<bar>) (- 1022) - 52"] unfolding u_def by simp
  then show ?thesis
    using False assms unfolding round64_def Let_def u_def by simp
qed

text \<open>The decimal literals of the source and of the examples, as binary64 numbers.\<close>

lemma double_literals:
  "double 0.2 = Fin (3602879701896397 / 18014398509481984)"
  "double 0.3 = Fin (5404319552844595 / 18014398509481984)"
  "double 0.4 = Fin (3602879701896397 / 9007199254740992)"
  "double 0.5 = Fin (1 / 2)"
  "double 0.6 = Fin (5404319552844595 / 9007199254740992)"
  "double 0.7 = Fin (3152519739159347 / 4503599627370496)"
  "double 0.8 = Fin (3602879701896397 / 4503599627370496)"
  "double 0.9 = Fin (8106479329266893 / 9007199254740992)"
  "double 1.0 = Fin 1"
  "double 1.1 = Fin (2476979795053773 / 2251799813685248)"
  "double 1.2 = Fin (5404319552844595 / 4503599627370496)"
  "double 1.4 = Fin (3152519739159347 / 2251799813685248)"
  "double 1.5 = Fin (3 / 2)"
  "double 2.24 = Fin (1261007895663739 / 562949953421312)"
  by (simp_all add: double_def round64_eval)

text \<open>The same, with the literal as the fraction in lowest terms.\<close>

lemma double_values:
  "double (1 / 5) = Fin (3602879701896397 / 18014398509481984)"
  "double (3 / 10) = Fin (5404319552844595 / 18014398509481984)"
  "double (2 / 5) = Fin (3602879701896397 / 9007199254740992)"
  "double (1 / 2) = Fin (1 / 2)"
  "double (3 / 5) = Fin (5404319552844595 / 9007199254740992)"
  "double (7 / 10) = Fin (3152519739159347 / 4503599627370496)"
  "double (4 / 5) = Fin (3602879701896397 / 4503599627370496)"
  "double (9 / 10) = Fin (8106479329266893 / 9007199254740992)"
  "double 1 = Fin 1"
  "double (11 / 10) = Fin (2476979795053773 / 2251799813685248)"
  "double (6 / 5) = Fin (5404319552844595 / 4503599627370496)"
  "double (7 / 5) = Fin (3152519739159347 / 2251799813685248)"
  "double (3 / 2) = Fin (3 / 2)"
  "double (56 / 25) = Fin (1261007895663739 / 562949953421312)"
  using double_literals by simp_all

section \<open>Order of numbers\<close>

lemma js_lt_trans: "js_lt a b \<Longrightarrow> js_lt b c \<Longrightarrow> js_lt a c"
  by (cases a; cases b; cases c) auto

lemma js_lt_neg_trans: "x \<noteq> NaN \<Longrightarrow> \<not> js_lt c x \<Longrightarrow> js_lt c r \<Longrightarrow> js_lt x r"
  by (cases x; cases c; cases r) auto

lemma js_lt_not_NaN: "js_lt a b \<Longrightarrow> a \<noteq> NaN \<and> b \<noteq> NaN"
  by (cases a; cases b) auto

lemma js_lt_trichotomy: "a \<noteq> NaN \<Longrightarrow> b \<noteq> NaN \<Longrightarrow> js_lt a b \<or> a = b \<or> js_lt b a"
  by (cases a; cases b) auto

lemma clamp_cases: "clamp v = NaN \<or> nonneg (clamp v)"
  by (cases v) (auto simp: clamp_def)

lemma nonneg_gt_minus_one: "nonneg v \<Longrightarrow> js_lt (Fin (- 1)) v"
  by (cases v) auto

lemma nonneg_not_NaN: "nonneg v \<Longrightarrow> v \<noteq> NaN"
  by (cases v) auto

lemma fold_first_max:
  fixes lt :: "'v \<Rightarrow> 'v \<Rightarrow> bool" and ok :: "'v \<Rightarrow> bool"
  assumes tr: "\<And>a b c. lt a b \<Longrightarrow> lt b c \<Longrightarrow> lt a c"
    and nt: "\<And>c x r. ok x \<Longrightarrow> \<not> lt c x \<Longrightarrow> lt c r \<Longrightarrow> lt x r"
  defines "step \<equiv> (\<lambda>entry cur. if lt (snd cur) (snd entry) then entry else cur)"
  shows "(fold step sc cur = cur \<and> (\<forall>x\<in>set sc. \<not> lt (snd cur) (snd x))) \<or>
         (\<exists>pre post. sc = pre @ fold step sc cur # post \<and> lt (snd cur) (snd (fold step sc cur)) \<and>
            (\<forall>x\<in>set pre. ok (snd x) \<longrightarrow> lt (snd x) (snd (fold step sc cur))) \<and>
            (\<forall>x\<in>set post. \<not> lt (snd (fold step sc cur)) (snd x)))"
proof (induction sc arbitrary: cur)
  case Nil
  then show ?case by simp
next
  case (Cons x sc)
  show ?case
  proof (cases "lt (snd cur) (snd x)")
    case True
    then have f: "fold step (x # sc) cur = fold step sc x" by (simp add: step_def)
    from Cons.IH[of x] show ?thesis
    proof (elim disjE conjE exE)
      assume "fold step sc x = x" "\<forall>y\<in>set sc. \<not> lt (snd x) (snd y)"
      then have "x # sc = [] @ fold step (x # sc) cur # sc \<and> lt (snd cur) (snd (fold step (x # sc) cur)) \<and>
            (\<forall>y\<in>set []. ok (snd y) \<longrightarrow> lt (snd y) (snd (fold step (x # sc) cur))) \<and>
            (\<forall>y\<in>set sc. \<not> lt (snd (fold step (x # sc) cur)) (snd y))"
        using True f by simp
      then show ?thesis by blast
    next
      fix pre post
      assume a: "sc = pre @ fold step sc x # post" "lt (snd x) (snd (fold step sc x))"
        "\<forall>y\<in>set pre. ok (snd y) \<longrightarrow> lt (snd y) (snd (fold step sc x))"
        "\<forall>y\<in>set post. \<not> lt (snd (fold step sc x)) (snd y)"
      have "x # sc = (x # pre) @ fold step (x # sc) cur # post" using a(1) f by simp
      moreover have "lt (snd cur) (snd (fold step (x # sc) cur))" using tr[OF True a(2)] f by simp
      moreover have "\<forall>y\<in>set (x # pre). ok (snd y) \<longrightarrow> lt (snd y) (snd (fold step (x # sc) cur))"
        using a(2,3) f by simp
      moreover have "\<forall>y\<in>set post. \<not> lt (snd (fold step (x # sc) cur)) (snd y)" using a(4) f by simp
      ultimately show ?thesis by blast
    qed
  next
    case False
    then have f: "fold step (x # sc) cur = fold step sc cur" by (simp add: step_def)
    from Cons.IH[of cur] show ?thesis
    proof (elim disjE conjE exE)
      assume "fold step sc cur = cur" "\<forall>y\<in>set sc. \<not> lt (snd cur) (snd y)"
      then show ?thesis using False f by simp
    next
      fix pre post
      assume a: "sc = pre @ fold step sc cur # post" "lt (snd cur) (snd (fold step sc cur))"
        "\<forall>y\<in>set pre. ok (snd y) \<longrightarrow> lt (snd y) (snd (fold step sc cur))"
        "\<forall>y\<in>set post. \<not> lt (snd (fold step sc cur)) (snd y)"
      have "x # sc = (x # pre) @ fold step (x # sc) cur # post" using a(1) f by simp
      moreover have "lt (snd cur) (snd (fold step (x # sc) cur))" using a(2) f by simp
      moreover have "\<forall>y\<in>set (x # pre). ok (snd y) \<longrightarrow> lt (snd y) (snd (fold step (x # sc) cur))"
        using a(2,3) f nt[OF _ False a(2)] by simp
      moreover have "\<forall>y\<in>set post. \<not> lt (snd (fold step (x # sc) cur)) (snd y)" using a(4) f by simp
      ultimately show ?thesis by blast
    qed
  qed
qed

lemma winner_step_eq: "winner_step = (\<lambda>entry cur. if js_lt (snd cur) (snd entry) then entry else cur)"
  by (simp add: winner_step_def js_gt_def fun_eq_iff)

lemma find_winner_cases:
  "(find_winner sc = (Neutral, Fin (- 1)) \<and> (\<forall>x\<in>set sc. \<not> js_lt (Fin (- 1)) (snd x))) \<or>
   (\<exists>pre post. sc = pre @ find_winner sc # post \<and> js_lt (Fin (- 1)) (snd (find_winner sc)) \<and>
      (\<forall>x\<in>set pre. snd x \<noteq> NaN \<longrightarrow> js_lt (snd x) (snd (find_winner sc))) \<and>
      (\<forall>x\<in>set post. \<not> js_lt (snd (find_winner sc)) (snd x)))"
  unfolding find_winner_def winner_step_eq
  using fold_first_max[where lt = js_lt and ok = "\<lambda>v. v \<noteq> NaN" and sc = sc and cur = "(Neutral, Fin (- 1))",
      OF js_lt_trans js_lt_neg_trans]
  by simp

section \<open>Lemmas about the classifier\<close>

lemma aggregates_cong:
  assumes "\<And>n. get s n = get s' n"
  shows "aggregates_of s = aggregates_of s'"
  unfolding aggregates_of_def pair_mean_def using assms by simp

lemma aggregates_all_zero:
  assumes "\<And>n. get s n = Fin 0"
  shows "aggregates_of s = zero_aggregates"
  unfolding aggregates_of_def pair_mean_def zero_aggregates_def using assms
  by (simp add: round64_zero)

lemma raw_scores_zero:
  "raw_scores zero_aggregates =
     [(Happy, Fin 0), (Excited, Fin 0), (Surprised, Fin 0), (Sad, double 0.4), (Angry, Fin 0),
      (Neutral, double 1.1)]"
  by (simp add: raw_scores_def zero_aggregates_def js_sub_def double_values round64_eval)

lemma clamp_zero_scores:
  "clamp_scores
     [(Happy, Fin 0), (Excited, Fin 0), (Surprised, Fin 0), (Sad, double 0.4), (Angry, Fin 0),
      (Neutral, double 1.1)] =
     [(Happy, Fin 0), (Excited, Fin 0), (Surprised, Fin 0), (Sad, double 0.4), (Angry, Fin 0),
      (Neutral, double 1.1)]"
  by (simp add: clamp_scores_def clamp_def double_values)

lemma final_scores_all_zero:
  assumes "\<And>n. get (lookup_dict bs) n = Fin 0"
  shows "final_scores bs =
     [(Happy, Fin 0), (Excited, Fin 0), (Surprised, Fin 0), (Sad, double 0.4), (Angry, Fin 0),
      (Neutral, double 1.1)]"
  unfolding final_scores_def aggregates_all_zero[OF assms] raw_scores_zero clamp_zero_scores ..

lemma find_winner_zero:
  "find_winner
     [(Happy, Fin 0), (Excited, Fin 0), (Surprised, Fin 0), (Sad, double 0.4), (Angry, Fin 0),
      (Neutral, double 1.1)] =
     (Neutral, double 1.1)"
  by (simp add: find_winner_def winner_step_def js_gt_def double_values)

text \<open>The quotient \<open>1.1 / 1.5\<close> in binary64 is \<open>0.7333333333333334\<close>.\<close>

lemma neutral_confidence:
  "Math_min (js_div (double 1.1) (double 1.5)) (Fin 1) =
     Fin (825659931684591 / 1125899906842624)"
  by (simp add: Math_min_def double_values round64_eval)

lemma classify_all_zero:
  assumes "\<And>n. get (lookup_dict bs) n = Fin 0"
  shows "classifyEmotion bs =
     \<lparr> emotion = Neutral, confidence = Fin (825659931684591 / 1125899906842624) \<rparr>"
  unfolding classifyEmotion_def final_scores_all_zero[OF assms] find_winner_zero
  using neutral_confidence by simp

lemma get_empty: "get (lookup_dict []) n = Fin 0"
  by (simp add: lookup_dict_def get_def)

lemma final_scores_keys: "map fst (final_scores bs) = enumeration"
  by (simp add: final_scores_def clamp_scores_def raw_scores_def enumeration_def)

lemma final_scores_clamped: "x \<in> set (final_scores bs) \<Longrightarrow> snd x = NaN \<or> nonneg (snd x)"
proof -
  assume "x \<in> set (final_scores bs)"
  then obtain k v where "x = (k, clamp v)"
    by (auto simp: final_scores_def clamp_scores_def)
  then show ?thesis using clamp_cases[of v] by simp
qed

lemma enumeration_sorted: "sorted_wrt (\<lambda>a b. enum_index a < enum_index b) enumeration"
  by (simp add: enumeration_def)

lemma enumeration_distinct: "distinct enumeration"
  by (simp add: enumeration_def)

lemma enumeration_all: "e \<in> set enumeration"
  by (cases e) (simp_all add: enumeration_def)

lemma score_of_mem:
  assumes "distinct (map fst sc)" "(e, v) \<in> set sc"
  shows "score_of sc e = v"
  using assms by (simp add: score_of_def)

lemma score_of_final_mem: "(e, v) \<in> set (final_scores bs) \<Longrightarrow> score_of (final_scores bs) e = v"
  by (rule score_of_mem) (simp_all add: final_scores_keys enumeration_distinct)

lemma final_scores_has: "(e, score_of (final_scores bs) e) \<in> set (final_scores bs)"
proof -
  have "e \<in> fst ` set (final_scores bs)"
    using enumeration_all[of e] final_scores_keys[of bs] by (metis list.set_map)
  then obtain v where "(e, v) \<in> set (final_scores bs)" by auto
  then show ?thesis using score_of_final_mem by metis
qed

lemma find_winner_final:
  assumes "\<exists>e. score_of (final_scores bs) e \<noteq> NaN"
  shows "\<exists>pre post. final_scores bs = pre @ find_winner (final_scores bs) # post \<and>
      nonneg (snd (find_winner (final_scores bs))) \<and>
      (\<forall>x\<in>set pre. snd x \<noteq> NaN \<longrightarrow> js_lt (snd x) (snd (find_winner (final_scores bs)))) \<and>
      (\<forall>x\<in>set post. \<not> js_lt (snd (find_winner (final_scores bs))) (snd x))"
proof -
  let ?sc = "final_scores bs"
  from assms obtain e where e: "score_of ?sc e \<noteq> NaN" by blast
  have mem: "(e, score_of ?sc e) \<in> set ?sc" by (rule final_scores_has)
  then have "nonneg (score_of ?sc e)" using final_scores_clamped[OF mem] e by simp
  then have "js_lt (Fin (- 1)) (snd (e, score_of ?sc e))" by (simp add: nonneg_gt_minus_one)
  with mem have not_first: "\<not> (\<forall>x\<in>set ?sc. \<not> js_lt (Fin (- 1)) (snd x))" by blast
  from find_winner_cases[of ?sc] not_first
  obtain pre post where d: "?sc = pre @ find_winner ?sc # post"
      "js_lt (Fin (- 1)) (snd (find_winner ?sc))"
      "\<forall>x\<in>set pre. snd x \<noteq> NaN \<longrightarrow> js_lt (snd x) (snd (find_winner ?sc))"
      "\<forall>x\<in>set post. \<not> js_lt (snd (find_winner ?sc)) (snd x)"
    by blast
  have "find_winner ?sc \<in> set ?sc" using d(1) by (metis in_set_conv_decomp)
  then have "snd (find_winner ?sc) = NaN \<or> nonneg (snd (find_winner ?sc))"
    by (rule final_scores_clamped)
  with d(2) have "nonneg (snd (find_winner ?sc))" using js_lt_not_NaN by blast
  with d show ?thesis by blast
qed

lemma classify_fields:
  "emotion (classifyEmotion bs) = fst (find_winner (final_scores bs))"
  "confidence (classifyEmotion bs) =
     Math_min (js_div (snd (find_winner (final_scores bs))) (double 1.5)) (Fin 1)"
  by (simp_all add: classifyEmotion_def split: prod.splits)

lemma confidence_of_nonneg:
  assumes "nonneg b"
  shows "\<exists>q. Math_min (js_div b (double 1.5)) (Fin 1) = Fin q \<and> 0 \<le> q \<and> q \<le> 1"
proof (cases b)
  case (Fin a)
  then have a: "0 \<le> a / (3 / 2)" using assms by simp
  have d: "js_div b (double 1.5) = round64 (a / (3 / 2))"
    using Fin by (simp add: double_values)
  show ?thesis
  proof (cases "round64 (a / (3 / 2))")
    case (Fin r)
    then have r: "0 \<le> r" using round64_nonneg[OF a] by simp
    show ?thesis
    proof (cases "1 < r")
      case True
      then have "Math_min (js_div b (double 1.5)) (Fin 1) = Fin 1"
        unfolding d Fin Math_min_def by simp
      then show ?thesis by simp
    next
      case False
      then have "Math_min (js_div b (double 1.5)) (Fin 1) = Fin r"
        unfolding d Fin Math_min_def by simp
      then show ?thesis using r False by auto
    qed
  next
    case PInf
    then have "Math_min (js_div b (double 1.5)) (Fin 1) = Fin 1"
      unfolding d Math_min_def by simp
    then show ?thesis by simp
  next
    case NInf
    then show ?thesis using round64_nonneg[OF a] by simp
  next
    case NaN
    then show ?thesis using round64_nonneg[OF a] by simp
  qed
next
  case PInf
  then have "Math_min (js_div b (double 1.5)) (Fin 1) = Fin 1"
    by (simp add: Math_min_def double_values)
  then show ?thesis by simp
next
  case NInf
  then show ?thesis using assms by simp
next
  case NaN
  then show ?thesis using assms by simp
qed

lemma classify_cong:
  assumes "\<And>n. get (lookup_dict bs) n = get (lookup_dict bs') n"
  shows "classifyEmotion bs = classifyEmotion bs'"
proof -
  have "aggregates_of (lookup_dict bs) = aggregates_of (lookup_dict bs')"
    using assms by (rule aggregates_cong)
  then show ?thesis by (simp add: classifyEmotion_def final_scores_def)
qed

lemma lookup_dict_snoc:
  "lookup_dict (bs @ [b]) = (lookup_dict bs)(categoryName b \<mapsto> score b)"
  by (simp add: lookup_dict_def)

lemma lookup_dict_filter:
  "lookup_dict (filter (\<lambda>b. P (categoryName b)) bs) n = (if P n then lookup_dict bs n else None)"
proof (induction bs arbitrary: n rule: rev_induct)
  case Nil
  then show ?case by (simp add: lookup_dict_def)
next
  case (snoc b bs)
  then show ?case by (simp add: lookup_dict_snoc)
qed

lemma get_without_zero_channels:
  "get (lookup_dict (without_zero_channels bs)) n = get (lookup_dict bs) n"
proof -
  have "lookup_dict (without_zero_channels bs) n =
          (if get (lookup_dict bs) n \<noteq> Fin 0 then lookup_dict bs n else None)"
    unfolding without_zero_channels_def
    by (rule lookup_dict_filter[where P = "\<lambda>k. get (lookup_dict bs) k \<noteq> Fin 0"])
  then show ?thesis by (simp add: get_def)
qed

section \<open>Lemmas about the smoother\<close>

lemma count_frequency_snoc: "count_frequency (h @ [x]) = freq_incr x (count_frequency h)"
  by (simp add: count_frequency_def)

lemma freq_incr_keys:
  "map fst (freq_incr e fr) = (if e \<in> fst ` set fr then map fst fr else map fst fr @ [e])"
  by (induction fr) force+

lemma freq_incr_map_of:
  "map_of (freq_incr e fr) k =
     (if k = e then Some (case map_of fr e of None \<Rightarrow> 1 | Some n \<Rightarrow> n + 1) else map_of fr k)"
  by (induction fr) auto

lemma count_frequency_keys_set: "fst ` set (count_frequency h) = set h"
proof (induction h rule: rev_induct)
  case Nil
  then show ?case by (simp add: count_frequency_def)
next
  case (snoc x h)
  have "fst ` set (count_frequency (h @ [x])) = set (map fst (freq_incr x (count_frequency h)))"
    by (simp add: count_frequency_snoc)
  also have "\<dots> = insert x (set h)"
    unfolding freq_incr_keys using snoc.IH by auto
  finally show ?case by simp
qed

lemma count_frequency_distinct: "distinct (map fst (count_frequency h))"
proof (induction h rule: rev_induct)
  case Nil
  then show ?case by (simp add: count_frequency_def)
next
  case (snoc x h)
  then show ?case
    by (simp add: count_frequency_snoc freq_incr_keys count_frequency_keys_set)
qed

lemma count_frequency_map_of:
  "map_of (count_frequency h) k = (if k \<in> set h then Some (count_list h k) else None)"
proof (induction h arbitrary: k rule: rev_induct)
  case Nil
  then show ?case by (simp add: count_frequency_def)
next
  case (snoc x h)
  show ?case
    by (cases "x \<in> set h") (simp_all add: count_frequency_snoc freq_incr_map_of snoc.IH)
qed

lemma count_frequency_entry:
  "(k, n) \<in> set (count_frequency h) \<longleftrightarrow> k \<in> set h \<and> n = count_list h k"
  using count_frequency_distinct[of h] count_frequency_map_of[of h k]
  by (metis map_of_eq_Some_iff option.distinct(1) option.inject)

lemma first_index_snoc_old: "a \<in> set h \<Longrightarrow> first_index (h @ [x]) a = first_index h a"
  unfolding first_index_def by (induction h) auto

lemma first_index_less: "a \<in> set h \<Longrightarrow> first_index h a < length h"
  unfolding first_index_def by (induction h) auto

lemma first_index_snoc_new: "x \<notin> set h \<Longrightarrow> first_index (h @ [x]) x = length h"
  unfolding first_index_def by (induction h) auto

lemma count_frequency_order:
  "sorted_wrt (\<lambda>a b. first_index h a < first_index h b) (map fst (count_frequency h))"
proof (induction h rule: rev_induct)
  case Nil
  then show ?case by (simp add: count_frequency_def)
next
  case (snoc x h)
  have old: "sorted_wrt (\<lambda>a b. first_index (h @ [x]) a < first_index (h @ [x]) b)
               (map fst (count_frequency h))"
    using snoc.IH
    by (rule sorted_wrt_mono_rel[rotated])
       (simp add: count_frequency_keys_set first_index_snoc_old)
  show ?case
  proof (cases "x \<in> set h")
    case True
    then show ?thesis
      using old by (simp add: count_frequency_snoc freq_incr_keys count_frequency_keys_set)
  next
    case False
    then show ?thesis
      using old
      by (simp add: count_frequency_snoc freq_incr_keys count_frequency_keys_set
          sorted_wrt_append first_index_snoc_old first_index_snoc_new first_index_less)
  qed
qed

lemma dominant_step_eq:
  "dominant_step = (\<lambda>entry cur. if snd cur < snd entry then entry else cur)"
  by (simp add: dominant_step_def fun_eq_iff)

lemma dominant_fold_cases:
  fixes fr :: "(Emotion \<times> nat) list"
  shows "(fold dominant_step fr cur = cur \<and> (\<forall>x\<in>set fr. \<not> snd cur < snd x)) \<or>
   (\<exists>pre post. fr = pre @ fold dominant_step fr cur # post \<and> snd cur < snd (fold dominant_step fr cur) \<and>
      (\<forall>x\<in>set pre. snd x < snd (fold dominant_step fr cur)) \<and>
      (\<forall>x\<in>set post. \<not> snd (fold dominant_step fr cur) < snd x))"
  unfolding dominant_step_eq
  using fold_first_max[where lt = "(<) :: nat \<Rightarrow> nat \<Rightarrow> bool" and ok = "\<lambda>v. True" and sc = fr and cur = cur]
  by force

lemma dominant_properties:
  fixes h :: "Emotion list" and ini x :: Emotion
  assumes "h \<noteq> []"
  defines "d \<equiv> dominantEmotion ini h"
  shows "d \<in> set h"
    and "count_list h x \<le> count_list h d"
    and "x \<noteq> d \<Longrightarrow> count_list h x = count_list h d \<Longrightarrow> first_index h d < first_index h x"
proof -
  let ?fr = "count_frequency h"
  let ?r = "fold dominant_step ?fr (ini, 0)"
  have d: "d = fst ?r" by (simp add: d_def dominantEmotion_def)
  obtain y where y: "y \<in> set h" using assms(1) by (cases h) auto
  then have "(y, count_list h y) \<in> set ?fr" by (simp add: count_frequency_entry)
  moreover have "0 < count_list h y" using y count_list_0_iff[of h y] by simp
  ultimately have "\<not> (\<forall>x\<in>set ?fr. \<not> snd (ini, 0::nat) < snd x)" by force
  with dominant_fold_cases[of ?fr "(ini, 0)"]
  obtain pre post where dec: "?fr = pre @ ?r # post"
      "\<forall>x\<in>set pre. snd x < snd ?r" "\<forall>x\<in>set post. \<not> snd ?r < snd x"
    by blast
  have "?r \<in> set ?fr" using dec(1) by (metis in_set_conv_decomp)
  then have "(d, snd ?r) \<in> set ?fr" by (simp add: d)
  then have r: "d \<in> set h" "snd ?r = count_list h d" by (simp_all add: count_frequency_entry)
  show "d \<in> set h" by (rule r)
  have le: "count_list h z \<le> count_list h d" if "z \<in> set h" for z
  proof -
    have "(z, count_list h z) \<in> set ?fr" using that by (simp add: count_frequency_entry)
    then have "(z, count_list h z) \<in> set pre \<or> (z, count_list h z) = ?r \<or> (z, count_list h z) \<in> set post"
      using dec(1) by (metis Un_iff set_ConsD set_append)
    then show ?thesis
    proof (elim disjE)
      assume "(z, count_list h z) \<in> set pre"
      then have "snd (z, count_list h z) < snd ?r" using dec(2) by blast
      then show ?thesis using r(2) by simp
    next
      assume "(z, count_list h z) = ?r"
      then have "count_list h z = snd ?r" by (metis snd_conv)
      then show ?thesis using r(2) by simp
    next
      assume "(z, count_list h z) \<in> set post"
      then have "\<not> snd ?r < snd (z, count_list h z)" using dec(3) by blast
      then show ?thesis using r(2) by simp
    qed
  qed
  show "count_list h x \<le> count_list h d"
  proof (cases "x \<in> set h")
    case True
    then show ?thesis by (rule le)
  next
    case False
    then show ?thesis by (simp add: count_list_0_iff)
  qed
  show "first_index h d < first_index h x" if x: "x \<noteq> d" "count_list h x = count_list h d"
  proof -
    have "0 < count_list h d" using r(1) count_list_0_iff[of h d] by simp
    then have xin: "x \<in> set h" using x(2) by (metis count_list_0_iff less_irrefl)
    then have mem: "(x, count_list h x) \<in> set ?fr" by (simp add: count_frequency_entry)
    have "(x, count_list h x) \<notin> set pre"
    proof
      assume "(x, count_list h x) \<in> set pre"
      then have "snd (x, count_list h x) < snd ?r" using dec(2) by blast
      then show False using r(2) x(2) by simp
    qed
    moreover have "(x, count_list h x) \<noteq> ?r" using x(1) d by (metis fst_conv)
    ultimately have "(x, count_list h x) \<in> set post"
      using mem dec(1) by (metis Un_iff set_ConsD set_append)
    then have xp: "x \<in> set (map fst post)" by force
    have "map fst ?fr = map fst pre @ d # map fst post"
      using dec(1) d by (metis list.simps(9) map_append)
    then have "sorted_wrt (\<lambda>a b. first_index h a < first_index h b) (map fst pre @ d # map fst post)"
      using count_frequency_order[of h] by simp
    then show ?thesis using xp by (auto simp: sorted_wrt_append)
  qed
qed

lemma pushHistory_nonempty: "pushHistory e h \<noteq> []"
  by (cases h) (auto simp: pushHistory_def Let_def HISTORY_SIZE_def)

lemma pushHistory_length: "length h \<le> HISTORY_SIZE \<Longrightarrow> length (pushHistory e h) \<le> HISTORY_SIZE"
  by (auto simp: pushHistory_def Let_def)

lemma updateUI_history [simp]: "emotionHistory (updateUI d c st) = emotionHistory st"
  by (simp add: updateUI_def)

lemma updateUI_current [simp]: "currentEmotion (updateUI d c st) = Some d"
  by (simp add: updateUI_def)

lemma update_history [simp]:
  "emotionHistory (updateEmotionSmoothed e c st) = pushHistory e (emotionHistory st)"
  by (simp add: updateEmotionSmoothed_def Let_def)

lemma update_current:
  "currentEmotion (updateEmotionSmoothed e c st) =
     Some (dominantEmotion e (pushHistory e (emotionHistory st)))"
  by (simp add: updateEmotionSmoothed_def Let_def)

lemma clear_history [simp]: "emotionHistory (clearEmotion st) = emotionHistory st"
  by (simp add: clearEmotion_def)

lemma run_calls_snoc: "run_calls (calls @ [c]) st = apply_call c (run_calls calls st)"
  by (simp add: run_calls_def)

lemma reachable_bounded:
  "length (emotionHistory st) \<le> HISTORY_SIZE \<Longrightarrow>
   length (emotionHistory (run_calls calls st)) \<le> HISTORY_SIZE"
proof (induction calls rule: rev_induct)
  case Nil
  then show ?case by (simp add: run_calls_def)
next
  case (snoc c calls)
  then show ?case
    by (cases c) (simp_all add: run_calls_snoc pushHistory_length)
qed

lemma pushHistory_room:
  "length h < HISTORY_SIZE \<Longrightarrow> pushHistory e h = h @ [e]"
  by (simp add: pushHistory_def Let_def)

lemma pushHistory_full:
  "length h = HISTORY_SIZE \<Longrightarrow> pushHistory e h = tl h @ [e]"
  by (cases h) (simp_all add: pushHistory_def Let_def HISTORY_SIZE_def)

lemma repeat_tail:
  assumes "length (emotionHistory st0) \<le> HISTORY_SIZE"
  shows "\<exists>p. emotionHistory (run_calls (map (Observe e) cs) st0) = p @ replicate (min (length cs) HISTORY_SIZE) e
           \<and> length p + min (length cs) HISTORY_SIZE \<le> HISTORY_SIZE"
proof (induction cs rule: rev_induct)
  case Nil
  then show ?case using assms by (simp add: run_calls_def)
next
  case (snoc c cs)
  define st where "st = run_calls (map (Observe e) cs) st0"
  define m where "m = min (length cs) HISTORY_SIZE"
  define m' where "m' = min (length (cs @ [c])) HISTORY_SIZE"
  from snoc obtain p where p: "emotionHistory st = p @ replicate m e" "length p + m \<le> HISTORY_SIZE"
    unfolding st_def m_def by blast
  have h': "emotionHistory (run_calls (map (Observe e) (cs @ [c])) st0) = pushHistory e (p @ replicate m e)"
    by (simp add: run_calls_snoc p(1)[unfolded st_def])
  have rs: "replicate m e @ [e] = replicate (Suc m) e" by (simp add: replicate_append_same)
  have "\<exists>q. pushHistory e (p @ replicate m e) = q @ replicate m' e \<and> length q + m' \<le> HISTORY_SIZE"
  proof (cases "length p + m < HISTORY_SIZE")
    case True
    then have "pushHistory e (p @ replicate m e) = (p @ replicate m e) @ [e]"
      by (intro pushHistory_room) simp
    then have "pushHistory e (p @ replicate m e) = p @ replicate (Suc m) e" using rs by simp
    moreover have "m' = Suc m" using True unfolding m_def m'_def by auto
    ultimately show ?thesis using True by auto
  next
    case False
    then have full: "length p + m = HISTORY_SIZE" using p(2) by simp
    then have ph: "pushHistory e (p @ replicate m e) = tl (p @ replicate m e) @ [e]"
      by (intro pushHistory_full) simp
    show ?thesis
    proof (cases p)
      case Nil
      then have m: "m = HISTORY_SIZE" using full by simp
      then have "0 < m" by (simp add: HISTORY_SIZE_def)
      then obtain j where j: "m = Suc j" by (cases m) auto
      have "tl (replicate m e) @ [e] = replicate m e"
        unfolding j by (simp add: replicate_append_same)
      then have "pushHistory e (p @ replicate m e) = [] @ replicate m e" using ph Nil by simp
      moreover have "m' = m" using m unfolding m_def m'_def by auto
      ultimately show ?thesis using m by auto
    next
      case (Cons a q)
      then have lt: "m < HISTORY_SIZE" using full by simp
      have "pushHistory e (p @ replicate m e) = q @ replicate (Suc m) e"
        using Cons ph rs by simp
      moreover have "m' = Suc m" using lt unfolding m_def m'_def by auto
      moreover have "length q + Suc m \<le> HISTORY_SIZE" using Cons full by simp
      ultimately show ?thesis by auto
    qed
  qed
  then show ?case unfolding h' m'_def by simp
qed

lemma repeat_fills:
  assumes "length (emotionHistory st0) \<le> HISTORY_SIZE" "HISTORY_SIZE \<le> length cs"
  shows "emotionHistory (run_calls (map (Observe e) cs) st0) = replicate HISTORY_SIZE e"
proof -
  from repeat_tail[OF assms(1), of e cs] assms(2)
  obtain p where p: "emotionHistory (run_calls (map (Observe e) cs) st0) = p @ replicate HISTORY_SIZE e"
    "length p + HISTORY_SIZE \<le> HISTORY_SIZE"
    by (auto simp: min_def split: if_splits)
  then have "p = []" by simp
  with p show ?thesis by simp
qed

lemma dominant_replicate:
  assumes "0 < n"
  shows "dominantEmotion ini (replicate n e) = e"
proof -
  have "replicate n e \<noteq> []" using assms by simp
  from dominant_properties(1)[OF this, where ini = ini] show ?thesis by simp
qed

lemma history_run:
  "emotionHistory (run_calls calls st) =
     fold (\<lambda>c h. case c of Observe e x \<Rightarrow> pushHistory e h | Reset \<Rightarrow> h) calls (emotionHistory st)"
proof (induction calls rule: rev_induct)
  case Nil
  then show ?case by (simp add: run_calls_def)
next
  case (snoc c calls)
  then show ?case by (cases c) (simp_all add: run_calls_snoc update_history clear_history)
qed

lemma history_after_observations:
  "emotionHistory (after_calls (observe_all es)) = fold pushHistory es []"
proof -
  have "fold (\<lambda>c h. case c of Observe e x \<Rightarrow> pushHistory e h | Reset \<Rightarrow> h) (observe_all es) h0
          = fold pushHistory es h0" for h0
    by (induction es arbitrary: h0) (simp_all add: observe_all_def)
  then show ?thesis by (simp add: after_calls_def history_run initial_state_def)
qed

lemma after_calls_snoc:
  "after_calls (calls @ [c]) = apply_call c (after_calls calls)"
  by (simp add: after_calls_def run_calls_snoc)

lemma observe_all_snoc: "observe_all (es @ [e]) = observe_all es @ [Observe e (Fin 0.5)]"
  by (simp add: observe_all_def)

lemma repeat_current:
  assumes "cs \<noteq> []"
  shows "currentEmotion (run_calls (map (Observe e) cs) st) =
         Some (dominantEmotion e (emotionHistory (run_calls (map (Observe e) cs) st)))"
proof (cases cs rule: rev_cases)
  case Nil
  then show ?thesis using assms by simp
next
  case (snoc cs' c)
  then show ?thesis by (simp add: run_calls_snoc update_current update_history)
qed

section \<open>Evaluation of the example snapshots\<close>

lemma surprised_final_scores:
  "final_scores surprised_snapshot =
     [(Happy, Fin 0), (Excited, Fin (5314247560297185 / 4503599627370496)),
      (Surprised, Fin (5044031582654955 / 2251799813685248)),
      (Sad, Fin (2747195772696003 / 4503599627370496)), (Angry, Fin 0),
      (Neutral, Fin (1351079888211149 / 2251799813685248))]"
  by (simp add: surprised_snapshot_def final_scores_def clamp_scores_def clamp_def
      raw_scores_def aggregates_of_def pair_mean_def get_def lookup_dict_def js_sub_def
      double_values round64_eval)

lemma surprised_classified:
  "classifyEmotion surprised_snapshot = \<lparr> emotion = Surprised, confidence = Fin 1 \<rparr>"
  unfolding classifyEmotion_def surprised_final_scores
  by (simp add: find_winner_def winner_step_def js_gt_def Math_min_def double_values round64_eval)

lemma nan_final_scores:
  "final_scores nan_snapshot =
     [(Happy, NaN), (Excited, NaN), (Surprised, NaN), (Sad, NaN), (Angry, NaN), (Neutral, NaN)]"
  by (simp add: nan_snapshot_def final_scores_def clamp_scores_def clamp_def
      raw_scores_def aggregates_of_def pair_mean_def get_def lookup_dict_def js_sub_def
      double_values round64_eval)

lemma nan_classified:
  "classifyEmotion nan_snapshot =
     \<lparr> emotion = Neutral, confidence = Fin (- 6004799503160661 / 9007199254740992) \<rparr>"
  unfolding classifyEmotion_def nan_final_scores
  by (simp add: find_winner_def winner_step_def js_gt_def Math_min_def double_values round64_eval)

lemma partial_nan_final_scores:
  "final_scores partial_nan_snapshot =
     [(Happy, NaN), (Excited, NaN), (Surprised, Fin 0), (Sad, double 0.4), (Angry, NaN),
      (Neutral, NaN)]"
  by (simp add: partial_nan_snapshot_def final_scores_def clamp_scores_def clamp_def
      raw_scores_def aggregates_of_def pair_mean_def get_def lookup_dict_def js_sub_def
      double_values round64_eval)

lemma tie_final_scores:
  "final_scores tie_snapshot =
     [(Happy, Fin (1351079888211149 / 1125899906842624)),
      (Excited, Fin (1351079888211149 / 1125899906842624)), (Surprised, Fin (1 / 2)),
      (Sad, double 0.4), (Angry, Fin 0),
      (Neutral, Fin (3490289711212135 / 4503599627370496))]"
  by (simp add: tie_snapshot_def final_scores_def clamp_scores_def clamp_def
      raw_scores_def aggregates_of_def pair_mean_def get_def lookup_dict_def js_sub_def
      double_values round64_eval)

lemma tie_classified:
  "classifyEmotion tie_snapshot =
     \<lparr> emotion = Happy, confidence = Fin (7205759403792795 / 9007199254740992) \<rparr>"
  unfolding classifyEmotion_def tie_final_scores
  by (simp add: find_winner_def winner_step_def js_gt_def Math_min_def double_values round64_eval)

lemma out_of_range_classified:
  "classifyEmotion out_of_range_snapshot = \<lparr> emotion = Happy, confidence = Fin 1 \<rparr>"
  by (simp add: out_of_range_snapshot_def classifyEmotion_def find_winner_def winner_step_def
      js_gt_def Math_min_def final_scores_def clamp_scores_def clamp_def
      raw_scores_def aggregates_of_def pair_mean_def get_def lookup_dict_def js_sub_def
      double_values round64_eval)

text \<open>
  Rounding decides a result: with the single channel browInnerUp = 1 the score of sad is
  \<open>0.7 + 0.2 + 0.2\<close>, which is \<open>1.0999999999999999\<close> in binary64 and less than the 1.1 of
  neutral, so that neutral is returned.
\<close>

lemma rounding_decides_winner:
  "final_scores [channel ''browInnerUp'' (Fin 1)] =
     [(Happy, Fin 0), (Excited, Fin 0), (Surprised, double 0.4),
      (Sad, Fin (4953959590107545 / 4503599627370496)), (Angry, Fin 0), (Neutral, double 1.1)]"
  "emotion (classifyEmotion [channel ''browInnerUp'' (Fin 1)]) = Neutral"
  by (simp_all add: classifyEmotion_def find_winner_def winner_step_def js_gt_def Math_min_def
      final_scores_def clamp_scores_def clamp_def
      raw_scores_def aggregates_of_def pair_mean_def get_def lookup_dict_def js_sub_def
      double_values round64_eval)

section \<open>The all-zero snapshot\<close>

text \<open>
  Claim C2, as amended. For a snapshot in which every channel is missing or zero, every
  aggregate is 0, and after the clamp step the scores of happy, excited, surprised and
  angry are 0, the score of sad is 0.4 (its two constant terms \<open>(1 - dimple) * 0.2\<close> and
  \<open>(1 - pucker) * 0.2\<close>) and the score of neutral is its constant term 1.1.
\<close>

theorem zero_snapshot_scores:
  assumes "\<forall>n. get (lookup_dict blendShapes) n = Fin 0"
  shows "aggregates_of (lookup_dict blendShapes) = zero_aggregates \<and>
         final_scores blendShapes =
           [(Happy, Fin 0), (Excited, Fin 0), (Surprised, Fin 0), (Sad, double 0.4),
            (Angry, Fin 0), (Neutral, double 1.1)]"
proof -
  have z: "\<And>n. get (lookup_dict blendShapes) n = Fin 0" using assms by simp
  show ?thesis using aggregates_all_zero[OF z] final_scores_all_zero[OF z] by simp
qed

theorem zero_snapshot_scores_witness:
  "aggregates_of (lookup_dict []) = zero_aggregates \<and>
   final_scores [] =
     [(Happy, Fin 0), (Excited, Fin 0), (Surprised, Fin 0), (Sad, double 0.4),
      (Angry, Fin 0), (Neutral, double 1.1)]"
proof -
  have h: "\<forall>n. get (lookup_dict []) n = Fin 0" by (simp add: get_empty)
  show ?thesis using zero_snapshot_scores[OF h] .
qed

text \<open>
  The claim as stated fails: on the empty snapshot the score of sad is 0.4, which is
  positive.
\<close>

theorem zero_snapshot_sad_positive:
  "score_of (final_scores []) Sad = double 0.4 \<and>
   js_lt (Fin 0) (score_of (final_scores []) Sad)"
proof -
  have z: "\<And>n. get (lookup_dict []) n = Fin 0" by (rule get_empty)
  show ?thesis
    unfolding final_scores_all_zero[OF z] by (simp add: score_of_def double_values)
qed

text \<open>
  Claim C4, as amended. For a snapshot in which every channel is missing or zero, the
  classifier returns neutral, with the confidence \<open>min (1.1 / 1.5) 1\<close> as binary64 computes
  it: the number \<open>0.7333333333333334\<close>, which is within \<open>2 ^ -53\<close> of \<open>11 / 15\<close>.
\<close>

theorem zero_snapshot_neutral:
  assumes "\<forall>n. get (lookup_dict blendShapes) n = Fin 0"
  shows "classifyEmotion blendShapes =
           \<lparr> emotion = Neutral, confidence = Fin (825659931684591 / 1125899906842624) \<rparr> \<and>
         Math_min (js_div (double 1.1) (double 1.5)) (Fin 1) =
           Fin (825659931684591 / 1125899906842624) \<and>
         \<bar>825659931684591 / 1125899906842624 - 11 / 15 :: rat\<bar> < 1 / 2 ^ 53"
proof -
  have z: "\<And>n. get (lookup_dict blendShapes) n = Fin 0" using assms by simp
  have "\<bar>825659931684591 / 1125899906842624 - 11 / 15 :: rat\<bar> < 1 / 2 ^ 53" by simp
  then show ?thesis using classify_all_zero[OF z] neutral_confidence by simp
qed

theorem zero_snapshot_neutral_witness:
  "classifyEmotion [] =
     \<lparr> emotion = Neutral, confidence = Fin (825659931684591 / 1125899906842624) \<rparr> \<and>
   classifyEmotion [channel ''jawOpen'' (Fin 0), channel ''mouthSmileLeft'' (Fin 0)] =
     \<lparr> emotion = Neutral, confidence = Fin (825659931684591 / 1125899906842624) \<rparr>"
proof -
  have h1: "\<forall>n. get (lookup_dict []) n = Fin 0" by (simp add: get_empty)
  have h2: "\<forall>n. get (lookup_dict [channel ''jawOpen'' (Fin 0), channel ''mouthSmileLeft'' (Fin 0)]) n = Fin 0"
    by (simp add: get_def lookup_dict_def)
  show ?thesis using zero_snapshot_neutral[OF h1] zero_snapshot_neutral[OF h2] by simp
qed

text \<open>
  The claim as stated fails: the confidence on the empty snapshot is not \<open>11 / 15\<close>, which
  is no binary64 number.
\<close>

theorem zero_snapshot_confidence_rounded:
  "confidence (classifyEmotion []) \<noteq> Fin (11 / 15)"
proof -
  have z: "\<And>n. get (lookup_dict []) n = Fin 0" by (rule get_empty)
  show ?thesis unfolding classify_all_zero[OF z] by simp
qed

section \<open>The surprised scenario\<close>

text \<open>
  Claim C9, as amended. On the snapshot jawOpen = 0.8, eyeWideLeft = eyeWideRight = 0.7,
  browOuterUpLeft = browOuterUpRight = 0.5, browInnerUp = 0.3, the classifier returns
  surprised with confidence \<open>min (s / 1.5) 1 = 1\<close>, where the score \<open>s\<close> of surprised is
  \<open>2.2399999999999998\<close> as binary64 computes it, within \<open>2 ^ -51\<close> of 2.24 and greater than
  the score of every other emotion.
\<close>

theorem surprised_scenario:
  "classifyEmotion surprised_snapshot = \<lparr> emotion = Surprised, confidence = Fin 1 \<rparr> \<and>
   score_of (final_scores surprised_snapshot) Surprised = Fin (5044031582654955 / 2251799813685248) \<and>
   \<bar>5044031582654955 / 2251799813685248 - 2.24 :: rat\<bar> < 1 / 2 ^ 51 \<and>
   Math_min (js_div (score_of (final_scores surprised_snapshot) Surprised) (double 1.5)) (Fin 1) =
     Fin 1 \<and>
   js_lt (score_of (final_scores surprised_snapshot) Happy)
     (score_of (final_scores surprised_snapshot) Surprised) \<and>
   js_lt (score_of (final_scores surprised_snapshot) Excited)
     (score_of (final_scores surprised_snapshot) Surprised) \<and>
   js_lt (score_of (final_scores surprised_snapshot) Sad)
     (score_of (final_scores surprised_snapshot) Surprised) \<and>
   js_lt (score_of (final_scores surprised_snapshot) Angry)
     (score_of (final_scores surprised_snapshot) Surprised) \<and>
   js_lt (score_of (final_scores surprised_snapshot) Neutral)
     (score_of (final_scores surprised_snapshot) Surprised)"
proof -
  have m: "Math_min (js_div (Fin (5044031582654955 / 2251799813685248)) (double 1.5)) (Fin 1) = Fin 1"
    by (simp add: Math_min_def double_values round64_eval)
  have b: "\<bar>5044031582654955 / 2251799813685248 - 2.24 :: rat\<bar> < 1 / 2 ^ 51" by simp
  show ?thesis
    using surprised_classified m b unfolding surprised_final_scores by (simp add: score_of_def)
qed

text \<open>
  The claim as stated fails: the score of surprised is neither 2.24 nor the binary64
  number that the literal 2.24 denotes.
\<close>

theorem surprised_score_rounded:
  "score_of (final_scores surprised_snapshot) Surprised \<noteq> Fin 2.24 \<and>
   score_of (final_scores surprised_snapshot) Surprised \<noteq> double 2.24"
  unfolding surprised_final_scores by (simp add: score_of_def double_values)

section \<open>Range of the confidence\<close>

text \<open>
  Whenever at least one of the six scores is not NaN after the clamp step, the winning
  score is at least 0, and the confidence, the smaller of that score divided by 1.5 and
  1, is a finite number in \<open>[0, 1]\<close>.
\<close>

lemma confidence_in_unit_interval:
  assumes "\<exists>e. score_of (final_scores blendShapes) e \<noteq> NaN"
  shows "nonneg (snd (find_winner (final_scores blendShapes))) \<and>
         confidence (classifyEmotion blendShapes) =
           Math_min (js_div (snd (find_winner (final_scores blendShapes))) (double 1.5)) (Fin 1) \<and>
         (\<exists>q. confidence (classifyEmotion blendShapes) = Fin q \<and> 0 \<le> q \<and> q \<le> 1)"
proof -
  from find_winner_final[OF assms]
  have n: "nonneg (snd (find_winner (final_scores blendShapes)))" by blast
  then show ?thesis using confidence_of_nonneg[OF n] by (simp add: classify_fields)
qed

text \<open>
  Claim C5. The confidence returned by the classifier is to lie in \<open>[0, 1]\<close> for every
  snapshot: the clamp makes every score at least 0, and the last step is commented as
  normalising the confidence to the range from 0 to 1. The code does not keep this for a
  snapshot that makes all six scores NaN: no score is greater than the initial
  \<open>bestScore = -1\<close>, which is then divided by 1.5, and the confidence returned with neutral
  is \<open>-0.6666666666666666\<close>.
\<close>

theorem confidence_negative_all_NaN:
  "classifyEmotion nan_snapshot =
     \<lparr> emotion = Neutral, confidence = Fin (- 6004799503160661 / 9007199254740992) \<rparr> \<and>
   confidence (classifyEmotion nan_snapshot) = js_div (Fin (- 1)) (double 1.5) \<and>
   js_lt (confidence (classifyEmotion nan_snapshot)) (Fin 0)"
  by (simp add: nan_classified double_values round64_eval)

section \<open>Selection of the winner\<close>

text \<open>
  Claim C7, as amended. For every snapshot for which at least one of the six scores is
  not NaN after the clamp step, the score of the selected emotion is not NaN, and every
  other emotion whose score is not NaN has either a smaller score, or the same score and
  a later place in the enumeration order happy, excited, surprised, sad, angry, neutral.
\<close>

theorem winner_first_greatest:
  assumes "\<exists>e. score_of (final_scores blendShapes) e \<noteq> NaN"
  shows "score_of (final_scores blendShapes) (emotion (classifyEmotion blendShapes)) \<noteq> NaN \<and>
    (\<forall>e. e \<noteq> emotion (classifyEmotion blendShapes) \<and>
         score_of (final_scores blendShapes) e \<noteq> NaN \<longrightarrow>
       js_lt (score_of (final_scores blendShapes) e)
         (score_of (final_scores blendShapes) (emotion (classifyEmotion blendShapes))) \<or>
       (score_of (final_scores blendShapes) e =
          score_of (final_scores blendShapes) (emotion (classifyEmotion blendShapes)) \<and>
        enum_index (emotion (classifyEmotion blendShapes)) < enum_index e))"
proof -
  let ?sc = "final_scores blendShapes"
  let ?w = "emotion (classifyEmotion blendShapes)"
  obtain pre post where d: "?sc = pre @ find_winner ?sc # post"
      "nonneg (snd (find_winner ?sc))"
      "\<forall>x\<in>set pre. snd x \<noteq> NaN \<longrightarrow> js_lt (snd x) (snd (find_winner ?sc))"
      "\<forall>x\<in>set post. \<not> js_lt (snd (find_winner ?sc)) (snd x)"
    using find_winner_final[OF assms] by blast
  have w: "find_winner ?sc = (?w, snd (find_winner ?sc))" by (simp add: classify_fields)
  have "(?w, snd (find_winner ?sc)) \<in> set ?sc" using d(1) w by (metis in_set_conv_decomp)
  then have sw: "score_of ?sc ?w = snd (find_winner ?sc)" by (rule score_of_final_mem)
  have wn: "score_of ?sc ?w \<noteq> NaN" using d(2) sw nonneg_not_NaN by simp
  have keys: "enumeration = map fst pre @ ?w # map fst post"
    using d(1) w final_scores_keys[of blendShapes] by (metis fst_conv list.simps(9) map_append)
  have later: "\<forall>y\<in>set (map fst post). enum_index ?w < enum_index y"
    using enumeration_sorted unfolding keys by (simp add: sorted_wrt_append)
  have "js_lt (score_of ?sc e) (score_of ?sc ?w) \<or>
       (score_of ?sc e = score_of ?sc ?w \<and> enum_index ?w < enum_index e)"
    if e: "e \<noteq> ?w" "score_of ?sc e \<noteq> NaN" for e
  proof -
    have "(e, score_of ?sc e) \<in> set ?sc" by (rule final_scores_has)
    then have "(e, score_of ?sc e) \<in> set pre \<or> (e, score_of ?sc e) \<in> set post"
      using d(1) w e(1) by (metis Pair_inject Un_iff set_ConsD set_append)
    then show ?thesis
    proof
      assume "(e, score_of ?sc e) \<in> set pre"
      then show ?thesis using d(3) e(2) sw by fastforce
    next
      assume p: "(e, score_of ?sc e) \<in> set post"
      then have "\<not> js_lt (score_of ?sc ?w) (score_of ?sc e)" using d(4) sw by fastforce
      then have "js_lt (score_of ?sc e) (score_of ?sc ?w) \<or> score_of ?sc e = score_of ?sc ?w"
        using js_lt_trichotomy[OF e(2) wn] by blast
      moreover have "enum_index ?w < enum_index e" using later p by force
      ultimately show ?thesis by blast
    qed
  qed
  with wn show ?thesis by blast
qed

theorem winner_first_greatest_witness:
  "emotion (classifyEmotion tie_snapshot) = Happy \<and>
   score_of (final_scores tie_snapshot) (emotion (classifyEmotion tie_snapshot)) \<noteq> NaN \<and>
   (js_lt (score_of (final_scores tie_snapshot) Excited)
      (score_of (final_scores tie_snapshot) (emotion (classifyEmotion tie_snapshot))) \<or>
    (score_of (final_scores tie_snapshot) Excited =
       score_of (final_scores tie_snapshot) (emotion (classifyEmotion tie_snapshot)) \<and>
     enum_index (emotion (classifyEmotion tie_snapshot)) < enum_index Excited))"
proof -
  have s: "score_of (final_scores tie_snapshot) Excited \<noteq> NaN"
    unfolding tie_final_scores by (simp add: score_of_def)
  then have h: "\<exists>e. score_of (final_scores tie_snapshot) e \<noteq> NaN" by blast
  have w: "emotion (classifyEmotion tie_snapshot) = Happy" by (simp add: tie_classified)
  then have ne: "Excited \<noteq> emotion (classifyEmotion tie_snapshot)" by simp
  show ?thesis using winner_first_greatest[OF h] s ne w by blast
qed

text \<open>
  The claim as stated fails for a snapshot that makes all six scores NaN: neutral is
  returned, although its score is not greater than the score of happy, which is the
  same and comes first in the enumeration order.
\<close>

theorem winner_default_all_NaN:
  "emotion (classifyEmotion nan_snapshot) = Neutral \<and>
   score_of (final_scores nan_snapshot) Happy = score_of (final_scores nan_snapshot) Neutral \<and>
   enum_index Happy < enum_index Neutral \<and>
   \<not> js_lt (score_of (final_scores nan_snapshot) Happy) (score_of (final_scores nan_snapshot) Neutral)"
  unfolding nan_final_scores by (simp add: nan_classified score_of_def)

section \<open>Missing and malformed channels\<close>

text \<open>
  Claim C3, as amended. No operation of the classifier can throw on an array of named
  numbers, so its model is a total function without an error value: it returns a result
  for every snapshot, malformed scores included. It reads only a missing channel as 0:
  the result is the same as on the snapshot from which the channels bound to 0 are
  removed. A malformed score enters the formulas as it is.
\<close>

theorem classify_ignores_zero_channels:
  "classifyEmotion (without_zero_channels blendShapes) = classifyEmotion blendShapes"
  by (rule classify_cong) (rule get_without_zero_channels)

theorem classify_ignores_zero_channels_witness:
  "without_zero_channels
     [channel ''jawOpen'' (double 0.8), channel ''jawOpen'' (Fin 0),
      channel ''mouthSmileLeft'' (Fin 2), channel ''browInnerUp'' (Fin 0)] =
     [channel ''mouthSmileLeft'' (Fin 2)] \<and>
   classifyEmotion [channel ''mouthSmileLeft'' (Fin 2)] =
     classifyEmotion
       [channel ''jawOpen'' (double 0.8), channel ''jawOpen'' (Fin 0),
        channel ''mouthSmileLeft'' (Fin 2), channel ''browInnerUp'' (Fin 0)]"
proof -
  have f: "without_zero_channels
     [channel ''jawOpen'' (double 0.8), channel ''jawOpen'' (Fin 0),
      channel ''mouthSmileLeft'' (Fin 2), channel ''browInnerUp'' (Fin 0)] =
     [channel ''mouthSmileLeft'' (Fin 2)]"
    by (simp add: without_zero_channels_def get_def lookup_dict_def)
  show ?thesis
    using classify_ignores_zero_channels[of
        "[channel ''jawOpen'' (double 0.8), channel ''jawOpen'' (Fin 0),
          channel ''mouthSmileLeft'' (Fin 2), channel ''browInnerUp'' (Fin 0)]"]
    unfolding f by simp
qed

text \<open>
  The claim as stated fails: two smile channels of score 2 are not read as 0. With them
  the result is happy with confidence 1, without them neutral with confidence
  \<open>0.7333333333333334\<close>.
\<close>

theorem malformed_scores_not_zeroed:
  "without_malformed out_of_range_snapshot = [] \<and>
   classifyEmotion out_of_range_snapshot = \<lparr> emotion = Happy, confidence = Fin 1 \<rparr> \<and>
   classifyEmotion (without_malformed out_of_range_snapshot) =
     \<lparr> emotion = Neutral, confidence = Fin (825659931684591 / 1125899906842624) \<rparr>"
proof -
  have e: "without_malformed out_of_range_snapshot = []"
    by (simp add: without_malformed_def out_of_range_snapshot_def)
  have z: "\<And>n. get (lookup_dict []) n = Fin 0" by (rule get_empty)
  show ?thesis using e out_of_range_classified classify_all_zero[OF z] by simp
qed

section \<open>The smoothed label\<close>

text \<open>
  Claim C8. After every observation the history is not empty, and the label handed to
  the display is an emotion of greatest frequency in it; any other emotion of the same
  frequency occurs for the first time later in the history.
\<close>

theorem dominant_most_frequent_first_seen:
  fixes st :: app_state and e :: Emotion and c :: number
  defines "h \<equiv> emotionHistory (updateEmotionSmoothed e c st)"
  defines "d \<equiv> dominantEmotion e h"
  shows "h \<noteq> [] \<and> currentEmotion (updateEmotionSmoothed e c st) = Some d \<and> d \<in> set h \<and>
    (\<forall>x. count_list h x \<le> count_list h d) \<and>
    (\<forall>x. x \<noteq> d \<and> count_list h x = count_list h d \<longrightarrow> first_index h d < first_index h x)"
proof -
  have h: "h = pushHistory e (emotionHistory st)" by (simp add: h_def update_history)
  have ne: "h \<noteq> []" unfolding h by (rule pushHistory_nonempty)
  have cur: "currentEmotion (updateEmotionSmoothed e c st) = Some d"
    unfolding d_def h by (rule update_current)
  have "d \<in> set h"
    unfolding d_def by (rule dominant_properties(1)[OF ne])
  moreover have "count_list h x \<le> count_list h d" for x
    unfolding d_def by (rule dominant_properties(2)[OF ne])
  moreover have "first_index h d < first_index h x"
    if "x \<noteq> d" "count_list h x = count_list h d" for x
    using that unfolding d_def by (rule dominant_properties(3)[OF ne])
  ultimately show ?thesis using ne cur by blast
qed

theorem dominant_most_frequent_first_seen_witness:
  "emotionHistory (after_calls (observe_all [Happy, Happy, Sad, Happy, Sad, Sad, Sad, Happy])) =
     [Happy, Happy, Sad, Happy, Sad, Sad, Sad, Happy] \<and>
   currentEmotion (after_calls (observe_all [Happy, Happy, Sad, Happy, Sad, Sad, Sad, Happy])) =
     Some Happy \<and>
   count_list [Happy, Happy, Sad, Happy, Sad, Sad, Sad, Happy] Sad =
     count_list [Happy, Happy, Sad, Happy, Sad, Sad, Sad, Happy] Happy \<and>
   first_index [Happy, Happy, Sad, Happy, Sad, Sad, Sad, Happy] Happy <
     first_index [Happy, Happy, Sad, Happy, Sad, Sad, Sad, Happy] Sad"
proof -
  define st where "st = after_calls (observe_all [Happy, Happy, Sad, Happy, Sad, Sad, Sad])"
  have last: "after_calls (observe_all [Happy, Happy, Sad, Happy, Sad, Sad, Sad, Happy]) =
      updateEmotionSmoothed Happy (Fin 0.5) st"
    unfolding st_def
    using after_calls_snoc[of "observe_all [Happy, Happy, Sad, Happy, Sad, Sad, Sad]" "Observe Happy (Fin 0.5)"]
      observe_all_snoc[of "[Happy, Happy, Sad, Happy, Sad, Sad, Sad]" Happy]
    by simp
  have h: "emotionHistory (updateEmotionSmoothed Happy (Fin 0.5) st) =
      [Happy, Happy, Sad, Happy, Sad, Sad, Sad, Happy]"
    unfolding last[symmetric] history_after_observations
    by (simp add: pushHistory_def HISTORY_SIZE_def)
  have d: "dominantEmotion Happy [Happy, Happy, Sad, Happy, Sad, Sad, Sad, Happy] = Happy"
    by (simp add: dominantEmotion_def count_frequency_def dominant_step_def)
  have t: "count_list [Happy, Happy, Sad, Happy, Sad, Sad, Sad, Happy] Sad =
     count_list [Happy, Happy, Sad, Happy, Sad, Sad, Sad, Happy] Happy" by simp
  from dominant_most_frequent_first_seen[of Happy "Fin 0.5" st]
  show ?thesis unfolding last h d using t by simp
qed

section \<open>The bound of the history\<close>

text \<open>
  Claim C6. In every state reached from the state at load, and after every further
  observation, the history holds at most \<open>HISTORY_SIZE = 8\<close> labels. From such a state,
  \<open>HISTORY_SIZE + k\<close> observations of the same emotion \<open>e\<close>, with \<open>k > 0\<close>, leave a history of
  exactly \<open>HISTORY_SIZE\<close> labels whose dominant label, the one handed to the display, is \<open>e\<close>.
\<close>

theorem history_bounded:
  fixes calls :: "smoother_call list" and label :: "Emotion option" and pct :: number
    and e :: Emotion and c :: number and k :: nat and cs :: "number list"
  defines "st \<equiv> run_calls calls (initial_state label pct)"
  shows "length (emotionHistory st) \<le> HISTORY_SIZE \<and>
    length (emotionHistory (updateEmotionSmoothed e c st)) \<le> HISTORY_SIZE \<and>
    (0 < k \<and> length cs = HISTORY_SIZE + k \<longrightarrow>
       length (emotionHistory (run_calls (map (Observe e) cs) st)) = HISTORY_SIZE \<and>
       dominantEmotion e (emotionHistory (run_calls (map (Observe e) cs) st)) = e \<and>
       currentEmotion (run_calls (map (Observe e) cs) st) = Some e)"
proof -
  have "length (emotionHistory (initial_state label pct)) \<le> HISTORY_SIZE"
    by (simp add: initial_state_def)
  then have b: "length (emotionHistory st) \<le> HISTORY_SIZE"
    unfolding st_def by (rule reachable_bounded)
  then have b': "length (emotionHistory (updateEmotionSmoothed e c st)) \<le> HISTORY_SIZE"
    by (simp add: update_history pushHistory_length)
  have r: "length (emotionHistory (run_calls (map (Observe e) cs) st)) = HISTORY_SIZE \<and>
       dominantEmotion e (emotionHistory (run_calls (map (Observe e) cs) st)) = e \<and>
       currentEmotion (run_calls (map (Observe e) cs) st) = Some e"
    if k: "0 < k" "length cs = HISTORY_SIZE + k"
  proof -
    have "HISTORY_SIZE \<le> length cs" using k by simp
    then have f: "emotionHistory (run_calls (map (Observe e) cs) st) = replicate HISTORY_SIZE e"
      using b by (intro repeat_fills)
    have d: "dominantEmotion e (replicate HISTORY_SIZE e) = e"
      by (rule dominant_replicate) (simp add: HISTORY_SIZE_def)
    have "cs \<noteq> []" using k by auto
    then have "currentEmotion (run_calls (map (Observe e) cs) st) = Some e"
      using repeat_current[of cs e st] f d by simp
    then show ?thesis using f d by simp
  qed
  show ?thesis using b b' r by blast
qed

theorem history_bounded_witness:
  "length (emotionHistory (run_calls (map (Observe Happy) (replicate 9 (Fin 0.5)))
      (run_calls [Observe Sad (double 0.3), Observe Angry (double 0.3), Reset]
         (initial_state None (Fin 0))))) = HISTORY_SIZE \<and>
   dominantEmotion Happy (emotionHistory (run_calls (map (Observe Happy) (replicate 9 (Fin 0.5)))
      (run_calls [Observe Sad (double 0.3), Observe Angry (double 0.3), Reset]
         (initial_state None (Fin 0))))) = Happy \<and>
   currentEmotion (run_calls (map (Observe Happy) (replicate 9 (Fin 0.5)))
      (run_calls [Observe Sad (double 0.3), Observe Angry (double 0.3), Reset]
         (initial_state None (Fin 0)))) = Some Happy"
proof -
  have h: "0 < (1::nat) \<and> length (replicate 9 (Fin 0.5)) = HISTORY_SIZE + 1"
    by (simp add: HISTORY_SIZE_def)
  show ?thesis
    using history_bounded[of "[Observe Sad (double 0.3), Observe Angry (double 0.3), Reset]" None
        "Fin 0" Happy "Fin 0.5" 1 "replicate 9 (Fin 0.5)"] h
    by blast
qed

section \<open>Reset on a frame without a face\<close>

text \<open>
  Claim C1, as amended. A frame without a face calls \<open>clearEmotion\<close>, which sets the
  displayed state to none and leaves the history as it was. The next observation of an
  emotion \<open>e\<close> always updates the display, with the dominant label of the retained history
  extended by \<open>e\<close>; this label is \<open>e\<close> when the history was empty.
\<close>

theorem clearEmotion_keeps_history:
  "predict NoFace st = clearEmotion st \<and>
   currentEmotion (clearEmotion st) = None \<and>
   shownEmotion (clearEmotion st) = None \<and>
   shownPct (clearEmotion st) = Fin 0 \<and>
   emotionHistory (clearEmotion st) = emotionHistory st \<and>
   currentEmotion (updateEmotionSmoothed e c (clearEmotion st)) =
     Some (dominantEmotion e (pushHistory e (emotionHistory st))) \<and>
   shownEmotion (updateEmotionSmoothed e c (clearEmotion st)) =
     Some (dominantEmotion e (pushHistory e (emotionHistory st))) \<and>
   (emotionHistory st = [] \<longrightarrow>
      dominantEmotion e (pushHistory e (emotionHistory (clearEmotion st))) = e)"
proof -
  have "dominantEmotion e (pushHistory e []) = e"
    by (simp add: pushHistory_def HISTORY_SIZE_def dominantEmotion_def count_frequency_def
        dominant_step_def)
  then show ?thesis
    by (simp add: clearEmotion_def updateEmotionSmoothed_def updateUI_def Let_def)
qed

theorem clearEmotion_keeps_history_witness:
  "currentEmotion (clearEmotion (initial_state None (Fin 0))) = None \<and>
   emotionHistory (clearEmotion (initial_state None (Fin 0))) = [] \<and>
   dominantEmotion Sad (pushHistory Sad (emotionHistory (clearEmotion (initial_state None (Fin 0))))) = Sad"
proof -
  have h: "emotionHistory (initial_state None (Fin 0)) = []" by (simp add: initial_state_def)
  show ?thesis
    using clearEmotion_keeps_history[of "initial_state None (Fin 0)" Sad "Fin 0.5"] h by simp
qed

text \<open>
  The claim as stated fails: after two observations of happy, a frame without a face
  leaves a history of length 2, and the observation of sad that follows gives the
  dominant label happy.
\<close>

theorem reset_keeps_history_counterexample:
  "length (emotionHistory (predict NoFace (after_calls (observe_all [Happy, Happy])))) = 2 \<and>
   dominantEmotion Sad
     (pushHistory Sad (emotionHistory (predict NoFace (after_calls (observe_all [Happy, Happy]))))) =
     Happy \<and>
   currentEmotion (updateEmotionSmoothed Sad (Fin 0.5)
     (predict NoFace (after_calls (observe_all [Happy, Happy])))) = Some Happy"
proof -
  have h: "emotionHistory (predict NoFace (after_calls (observe_all [Happy, Happy]))) = [Happy, Happy]"
    by (simp add: clear_history history_after_observations pushHistory_def HISTORY_SIZE_def)
  have d: "dominantEmotion Sad (pushHistory Sad [Happy, Happy]) = Happy"
    by (simp add: pushHistory_def HISTORY_SIZE_def dominantEmotion_def count_frequency_def
        dominant_step_def)
  show ?thesis unfolding update_current h using d by simp
qed

section \<open>The confidence handed to the display\<close>

text \<open>
  Claim C10, as amended. The confidence passed on to \<open>updateUI\<close> with the dominant label is
  the confidence of the current frame, whatever the dominant label is. When the dominant
  label differs from the displayed one, the display is rendered again and shows the
  dominant label with the percentage of the current frame's confidence, also when the
  frame's own label is another emotion. When the dominant label is the displayed one,
  nothing is rendered and the displayed percentage stays as it was.
\<close>

theorem forwarded_confidence_is_raw:
  fixes st :: app_state and e :: Emotion and c :: number
  defines "d \<equiv> dominantEmotion e (pushHistory e (emotionHistory st))"
  defines "st' \<equiv> updateEmotionSmoothed e c st"
  shows "st' = updateUI d c (st\<lparr> emotionHistory := pushHistory e (emotionHistory st) \<rparr>) \<and>
    currentEmotion st' = Some d \<and>
    (currentEmotion st \<noteq> Some d \<longrightarrow>
       shownEmotion st' = Some d \<and> shownPct st' = Math_round (js_mul c (Fin 100))) \<and>
    (currentEmotion st = Some d \<longrightarrow>
       shownEmotion st' = shownEmotion st \<and> shownPct st' = shownPct st)"
  unfolding d_def st'_def
  by (auto simp: updateEmotionSmoothed_def updateUI_def Let_def)

theorem forwarded_confidence_is_raw_witness:
  "dominantEmotion Angry (pushHistory Angry (emotionHistory
     (after_calls (observe_all [Happy, Happy, Happy, Sad, Sad, Sad, Neutral, Neutral])))) = Sad \<and>
   shownEmotion (updateEmotionSmoothed Angry (Fin 0.25)
     (after_calls (observe_all [Happy, Happy, Happy, Sad, Sad, Sad, Neutral, Neutral]))) = Some Sad \<and>
   shownPct (updateEmotionSmoothed Angry (Fin 0.25)
     (after_calls (observe_all [Happy, Happy, Happy, Sad, Sad, Sad, Neutral, Neutral]))) = Fin 25"
proof -
  define st where
    "st = after_calls (observe_all [Happy, Happy, Happy, Sad, Sad, Sad, Neutral, Neutral])"
  have h: "emotionHistory st = [Happy, Happy, Happy, Sad, Sad, Sad, Neutral, Neutral]"
    unfolding st_def history_after_observations by (simp add: pushHistory_def HISTORY_SIZE_def)
  have "st = updateEmotionSmoothed Neutral (Fin 0.5)
      (after_calls (observe_all [Happy, Happy, Happy, Sad, Sad, Sad, Neutral]))"
    unfolding st_def
    using after_calls_snoc[of "observe_all [Happy, Happy, Happy, Sad, Sad, Sad, Neutral]"
        "Observe Neutral (Fin 0.5)"]
      observe_all_snoc[of "[Happy, Happy, Happy, Sad, Sad, Sad, Neutral]" Neutral]
    by simp
  then have "currentEmotion st = Some (dominantEmotion Neutral (emotionHistory st))"
    by (simp add: update_current update_history)
  then have cur: "currentEmotion st = Some Happy"
    unfolding h by (simp add: dominantEmotion_def count_frequency_def dominant_step_def)
  have d: "dominantEmotion Angry (pushHistory Angry (emotionHistory st)) = Sad"
    unfolding h
    by (simp add: pushHistory_def HISTORY_SIZE_def dominantEmotion_def count_frequency_def
        dominant_step_def)
  have r: "Math_round (js_mul (Fin 0.25) (Fin 100)) = Fin 25" by (simp add: round64_eval)
  have ne: "currentEmotion st \<noteq> Some Sad" using cur by simp
  have res: "shownEmotion (updateEmotionSmoothed Angry (Fin 0.25) st) = Some Sad \<and>
      shownPct (updateEmotionSmoothed Angry (Fin 0.25) st) = Fin 25"
    using forwarded_confidence_is_raw[of Angry "Fin 0.25" st] ne
    unfolding d r by blast
  show ?thesis using d res unfolding st_def by blast
qed

text \<open>
  The claim as stated fails when the display is not rendered again: after a happy frame
  of confidence 0.9 and a sad frame of confidence 0.3 the dominant label is happy, not
  the sad of the current frame, and the display shows happy with the 90 percent of the
  happy frame, not the 30 percent of the current one.
\<close>

theorem displayed_confidence_not_current:
  "dominantEmotion Sad (pushHistory Sad (emotionHistory
     (after_calls [Observe Happy (double 0.9)]))) = Happy \<and>
   shownEmotion (after_calls [Observe Happy (double 0.9), Observe Sad (double 0.3)]) = Some Happy \<and>
   shownPct (after_calls [Observe Happy (double 0.9), Observe Sad (double 0.3)]) = Fin 90 \<and>
   Math_round (js_mul (double 0.9) (Fin 100)) = Fin 90 \<and>
   Math_round (js_mul (double 0.3) (Fin 100)) = Fin 30"
  by (simp add: after_calls_def run_calls_def initial_state_def updateEmotionSmoothed_def
      updateUI_def pushHistory_def HISTORY_SIZE_def dominantEmotion_def count_frequency_def
      dominant_step_def double_values round64_eval)

end
